theory Spec2Isabelle
  imports Main
begin

section \<open>Text as the client sees it\<close>

text \<open>
  Python \<open>str\<close> values are modelled as HOL strings (lists of 8-bit characters, read as the
  code points 0..255). \<open>py_isspace\<close> is \<open>str.isspace\<close> on one character: in this range the
  characters Python counts as whitespace are TAB, LF, VT, FF, CR, the separators FS, GS,
  RS, US, SPACE, NEL (0x85) and NBSP (0xA0). \<open>str.strip()\<close> removes exactly these from
  both ends.
\<close>

definition py_isspace :: "char \<Rightarrow> bool" where
  "py_isspace c = (of_char c \<in> {9, 10, 11, 12, 13, 28, 29, 30, 31, 32, 133, 160 :: nat})"

definition lstrip :: "string \<Rightarrow> string" where
  "lstrip s = dropWhile py_isspace s"

definition rstrip :: "string \<Rightarrow> string" where
  "rstrip s = rev (dropWhile py_isspace (rev s))"

definition strip :: "string \<Rightarrow> string" where
  "strip s = rstrip (lstrip s)"

text \<open>\<open>str.find(ch)\<close> for a single character: the first index, or \<open>None\<close> for Python's -1.\<close>

fun str_find :: "char \<Rightarrow> string \<Rightarrow> nat option" where
  "str_find ch [] = None"
| "str_find ch (c # cs) =
     (if c = ch then Some 0 else map_option Suc (str_find ch cs))"

section \<open>The standard library's JSON decoder\<close>

text \<open>
  \<open>json.JSONDecoder().raw_decode\<close> is not code of the repository; it is modelled here after
  the scanner of the standard library (\<open>scan_once\<close>, \<open>JSONObject\<close>, \<open>JSONArray\<close>,
  \<open>scanstring\<close> in strict mode, the number pattern), as a recursive-descent parser over
  the remaining text. A decoded value is kept as its parse tree: a number and a string
  literal keep their source text (escapes not expanded), an object keeps its members in
  source order. The Python value is a function of this tree, so equal trees mean equal
  decoded values.
\<close>

datatype json =
    JNull
  | JBool bool
  | JNumber string
  | JConstant string
  | JString string
  | JArray "json list"
  | JObject "(string \<times> json) list"

definition json_ws :: "char \<Rightarrow> bool" where
  "json_ws c = (c = CHR '' '' \<or> c = CHR 0x09 \<or> c = CHR 0x0A \<or> c = CHR 0x0D)"

definition skip_ws :: "string \<Rightarrow> string" where
  "skip_ws s = dropWhile json_ws s"

definition is_digit :: "char \<Rightarrow> bool" where
  "is_digit c = (c \<in> set ''0123456789'')"

definition is_hex :: "char \<Rightarrow> bool" where
  "is_hex c = (c \<in> set ''0123456789abcdefABCDEF'')"

text \<open>
  \<open>scanstring\<close>, entered just after the opening quote: the text up to the closing quote
  and the text after it. A control character, an unknown escape, a \<open>\u\<close> not followed by
  four hexadecimal digits and a missing closing quote are errors.
\<close>

fun scanstring :: "string \<Rightarrow> string \<Rightarrow> (string \<times> string) option" where
  "scanstring acc [] = None"
| "scanstring acc [c] = (if c = CHR 0x22 then Some (rev acc, []) else None)"
| "scanstring acc (c # e # cs) =
     (if c = CHR 0x22 then Some (rev acc, e # cs)
      else if c = CHR 0x5C then
        (if e = CHR ''u'' then
           (if 4 \<le> length cs \<and> list_all is_hex (take 4 cs)
            then scanstring (rev (take 4 cs) @ e # c # acc) (drop 4 cs)
            else None)
         else if e \<in> set [CHR 0x22, CHR 0x5C, CHR ''/'', CHR ''b'', CHR ''f'', CHR ''n'',
                           CHR ''r'', CHR ''t'']
         then scanstring (e # c # acc) cs
         else None)
      else if (of_char c :: nat) < 32 then None
      else scanstring (c # acc) (e # cs))"

text \<open>
  The number pattern \<open>(-?(?:0|[1-9][0-9]*))(\.[0-9]+)?([eE][-+]?[0-9]+)?\<close>, matched at the
  start of the text: the matched text and the rest.
\<close>

definition match_int :: "string \<Rightarrow> (string \<times> string) option" where
  "match_int s =
     (let sign = (if s \<noteq> [] \<and> hd s = CHR ''-'' then ''-'' else '''');
          s1 = drop (length sign) s
      in if s1 = [] then None
         else if hd s1 = CHR ''0'' then Some (sign @ ''0'', tl s1)
         else if is_digit (hd s1) then Some (sign @ takeWhile is_digit s1, dropWhile is_digit s1)
         else None)"

definition match_frac :: "string \<Rightarrow> string \<times> string" where
  "match_frac s =
     (case s of
        c # d # r \<Rightarrow>
          if c = CHR ''.'' \<and> is_digit d
          then (c # takeWhile is_digit (d # r), dropWhile is_digit (d # r))
          else ('''', s)
      | _ \<Rightarrow> ('''', s))"

definition match_exp :: "string \<Rightarrow> string \<times> string" where
  "match_exp s =
     (case s of
        [] \<Rightarrow> ('''', s)
      | c # r \<Rightarrow>
          if c = CHR ''e'' \<or> c = CHR ''E'' then
            (let sg = (if r \<noteq> [] \<and> (hd r = CHR ''+'' \<or> hd r = CHR ''-'') then [hd r] else '''');
                 r1 = drop (length sg) r
             in if r1 \<noteq> [] \<and> is_digit (hd r1)
                then (c # sg @ takeWhile is_digit r1, dropWhile is_digit r1)
                else ('''', s))
          else ('''', s))"

definition match_number :: "string \<Rightarrow> (string \<times> string) option" where
  "match_number s =
     (case match_int s of
        None \<Rightarrow> None
      | Some (i, r) \<Rightarrow>
          (let (f, r1) = match_frac r; (e, r2) = match_exp r1
           in Some (i @ f @ e, r2)))"

definition starts_with :: "string \<Rightarrow> string \<Rightarrow> bool" where
  "starts_with p s = (take (length p) s = p)"

text \<open>
  The interpreter's limits at the moment of the call. Entering an object or an array
  counts against the recursion limit: \<open>max_depth\<close> is the number of nested containers the
  decoder can still enter, and one more raises \<open>RecursionError\<close>. An integer literal is
  converted by \<open>int\<close>, which raises \<open>ValueError\<close> when its digits exceed \<open>max_digits\<close>
  (4300 unless configured; \<open>None\<close> is no limit). Neither is a \<open>JSONDecodeError\<close>.
\<close>

record limits =
  max_depth :: nat
  max_digits :: "nat option"

datatype crash =
    RecursionError
  | ValueError

datatype scan_result =
    Ok json string
  | JSONDecodeError
  | Crashed crash

definition int_too_long :: "nat option \<Rightarrow> string \<Rightarrow> bool" where
  "int_too_long md lexeme =
     (case md of
        None \<Rightarrow> False
      | Some m \<Rightarrow>
          CHR ''.'' \<notin> set lexeme \<and> CHR ''e'' \<notin> set lexeme \<and> CHR ''E'' \<notin> set lexeme
          \<and> m < length (filter is_digit lexeme))"

text \<open>
  \<open>scan_once\<close> decodes one value at the start of the text and returns it with the text
  that follows. \<open>parse_items\<close> is the loop of \<open>JSONArray\<close>, entered at a value;
  \<open>parse_members\<close> is the loop of \<open>JSONObject\<close>, entered just after the opening quote of a
  key. \<open>md\<close> is the digit limit and \<open>d\<close> the number of containers that may still be
  entered. The argument \<open>n\<close> bounds the number of nested calls of the model; \<open>raw_decode\<close>
  supplies a bound that is never reached (lemma \<open>scan_once_fuel\<close>).
\<close>

fun scan_once :: "nat option \<Rightarrow> nat \<Rightarrow> nat \<Rightarrow> string \<Rightarrow> scan_result"
  and parse_items :: "nat option \<Rightarrow> nat \<Rightarrow> nat \<Rightarrow> json list \<Rightarrow> string \<Rightarrow> scan_result"
  and parse_members ::
    "nat option \<Rightarrow> nat \<Rightarrow> nat \<Rightarrow> (string \<times> json) list \<Rightarrow> string \<Rightarrow> scan_result"
where
  "scan_once md 0 d s = JSONDecodeError"
| "scan_once md (Suc n) d s =
     (case s of
        [] \<Rightarrow> JSONDecodeError
      | c # cs \<Rightarrow>
          if c = CHR 0x22 then
            (case scanstring [] cs of
               None \<Rightarrow> JSONDecodeError
             | Some (k, r) \<Rightarrow> Ok (JString k) r)
          else if c = CHR ''{'' then
            (if d = 0 then Crashed RecursionError
             else
               (case skip_ws cs of
                  [] \<Rightarrow> JSONDecodeError
                | e # r \<Rightarrow>
                    if e = CHR ''}'' then Ok (JObject []) r
                    else if e = CHR 0x22 then parse_members md n (d - 1) [] r
                    else JSONDecodeError))
          else if c = CHR ''['' then
            (if d = 0 then Crashed RecursionError
             else
               (case skip_ws cs of
                  [] \<Rightarrow> JSONDecodeError
                | e # r \<Rightarrow>
                    if e = CHR '']'' then Ok (JArray []) r
                    else parse_items md n (d - 1) [] (e # r)))
          else if starts_with ''null'' s then Ok JNull (drop 4 s)
          else if starts_with ''true'' s then Ok (JBool True) (drop 4 s)
          else if starts_with ''false'' s then Ok (JBool False) (drop 5 s)
          else
            (case match_number s of
               Some (lexeme, r) \<Rightarrow>
                 if int_too_long md lexeme then Crashed ValueError else Ok (JNumber lexeme) r
             | None \<Rightarrow>
                 if starts_with ''NaN'' s then Ok (JConstant ''NaN'') (drop 3 s)
                 else if starts_with ''Infinity'' s then Ok (JConstant ''Infinity'') (drop 8 s)
                 else if starts_with ''-Infinity'' s then Ok (JConstant ''-Infinity'') (drop 9 s)
                 else JSONDecodeError))"
| "parse_items md 0 d vals s = JSONDecodeError"
| "parse_items md (Suc n) d vals s =
     (case scan_once md n d s of
        Ok v r \<Rightarrow>
          (case skip_ws r of
             [] \<Rightarrow> JSONDecodeError
           | e # r1 \<Rightarrow>
               if e = CHR '']'' then Ok (JArray (vals @ [v])) r1
               else if e = CHR '','' then parse_items md n d (vals @ [v]) (skip_ws r1)
               else JSONDecodeError)
      | failure \<Rightarrow> failure)"
| "parse_members md 0 d pairs s = JSONDecodeError"
| "parse_members md (Suc n) d pairs s =
     (case scanstring [] s of
        None \<Rightarrow> JSONDecodeError
      | Some (key, r) \<Rightarrow>
          (case skip_ws r of
             [] \<Rightarrow> JSONDecodeError
           | e # r1 \<Rightarrow>
               if e \<noteq> CHR '':'' then JSONDecodeError
               else
                 (case scan_once md n d (skip_ws r1) of
                    Ok v r2 \<Rightarrow>
                      (case skip_ws r2 of
                         [] \<Rightarrow> JSONDecodeError
                       | e2 # r3 \<Rightarrow>
                           if e2 = CHR ''}'' then Ok (JObject (pairs @ [(key, v)])) r3
                           else if e2 = CHR '','' then
                             (case skip_ws r3 of
                                [] \<Rightarrow> JSONDecodeError
                              | e3 # r4 \<Rightarrow>
                                  if e3 = CHR 0x22
                                  then parse_members md n d (pairs @ [(key, v)]) r4
                                  else JSONDecodeError)
                           else JSONDecodeError)
                  | failure \<Rightarrow> failure)))"

definition raw_decode :: "limits \<Rightarrow> string \<Rightarrow> scan_result" where
  "raw_decode lim s = scan_once (max_digits lim) (2 * length s + 1) (max_depth lim) s"

section \<open>The client: composing and running a command\<close>

text \<open>
  \<open>VastAIClient\<close> holds the binary's name and the API key; \<open>api_key = None\<close> and the
  empty key are both falsy in \<open>_compose_command\<close>.
\<close>

record VastAIClient =
  binary :: string
  api_key :: "string option"

definition compose_command :: "VastAIClient \<Rightarrow> string list \<Rightarrow> bool \<Rightarrow> string list" where
  "compose_command self args raw =
     [binary self] @ args @ (if raw then [''--raw''] else [])
       @ (case api_key self of
            None \<Rightarrow> []
          | Some k \<Rightarrow> if k = [] then [] else [''--api-key'', k])"

text \<open>
  What \<open>subprocess.run\<close> can do with a command: raise \<open>FileNotFoundError\<close>, raise any
  other exception (\<open>PermissionError\<close> for a file that cannot be executed, another
  \<open>OSError\<close>, \<open>UnicodeDecodeError\<close> for output that is not text; it is kept by its
  name), or complete with a return code and the two captured texts. The operating system
  is the function \<open>sp\<close> from the command to this outcome.
\<close>

datatype proc_result =
    FileNotFound
  | OtherError string
  | Completed int string string

record VastAICommandError =
  command :: "string list"
  exit_code :: int
  stderr :: string

text \<open>
  The exceptions that leave \<open>run\<close> and \<open>stream\<close>: the client's own error, and those it
  does not catch.
\<close>

datatype exc =
    CommandError VastAICommandError
  | Uncaught string
  | DecoderCrash crash
  | KeyboardInterruptExc
  | ReadErrorExc
  | TimeoutExpired

text \<open>What \<open>run\<close> returns: a decoded JSON value or a text.\<close>

datatype run_value =
    Decoded json
  | Text string

subsection \<open>\<open>_find_json_start\<close> and \<open>_extract_json_payload\<close>\<close>

fun find_json_start_from :: "nat \<Rightarrow> string \<Rightarrow> nat" where
  "find_json_start_from idx [] = 0"
| "find_json_start_from idx (c # cs) =
     (if c = CHR ''{'' \<or> c = CHR ''['' then idx
      else if \<not> py_isspace c then 0
      else find_json_start_from (Suc idx) cs)"

definition find_json_start :: "string \<Rightarrow> nat" where
  "find_json_start output = find_json_start_from 0 output"

text \<open>
  The loop of \<open>_extract_json_payload\<close> over the characters from \<open>start\<close> on: \<open>n\<close> counts
  the characters already passed, the stack holds the expected closers with the innermost
  first. The result is the number of characters of the balanced block; \<open>None\<close> is the
  \<open>break\<close> on a mismatch and the end of the text.
\<close>

fun balance_scan :: "nat \<Rightarrow> char list \<Rightarrow> string \<Rightarrow> nat option" where
  "balance_scan n stack [] = None"
| "balance_scan n stack (c # cs) =
     (if c = CHR ''{'' \<or> c = CHR ''['' then
        balance_scan (Suc n) ((if c = CHR ''{'' then CHR ''}'' else CHR '']'') # stack) cs
      else if c = CHR ''}'' \<or> c = CHR '']'' then
        (case stack of
           [] \<Rightarrow> None
         | closer # stack' \<Rightarrow>
             if closer \<noteq> c then None
             else if stack' = [] then Some (Suc n)
             else balance_scan (Suc n) stack' cs)
      else balance_scan (Suc n) stack cs)"

definition extract_json_payload :: "string \<Rightarrow> string option" where
  "extract_json_payload output =
     (let start_indices = List.map_filter (\<lambda>ch. str_find ch output) [CHR ''['', CHR ''{'']
      in if start_indices = [] then None
         else
           (let start = Min (set start_indices)
            in case balance_scan 0 [] (drop start output) of
                 None \<Rightarrow> None
               | Some len \<Rightarrow> Some (take len (drop start output))))"

text \<open>
  Two notions the properties of the bracket scan are stated with, defined on the text
  alone. \<open>nested t\<close>: every bracket of \<open>t\<close> is closed by a bracket of its own kind, in
  order. \<open>opened stack t\<close>: \<open>t\<close> begins with an opening bracket and its brackets are
  nested except for those left open, whose closers \<open>stack\<close> lists with the innermost
  first.
\<close>

definition is_bracket :: "char \<Rightarrow> bool" where
  "is_bracket c = (c = CHR ''['' \<or> c = CHR '']'' \<or> c = CHR ''{'' \<or> c = CHR ''}'')"







subsection \<open>\<open>run\<close>\<close>

text \<open>
  The branch of \<open>run\<close> under \<open>capture_json\<close>, applied to the captured standard output.
  Only \<open>JSONDecodeError\<close> is caught: a \<open>RecursionError\<close> or \<open>ValueError\<close> of the decoder
  leaves the branch (\<open>Inl\<close>).
\<close>

definition decode_output :: "limits \<Rightarrow> string \<Rightarrow> crash + run_value" where
  "decode_output lim stdout =
     (let data = strip stdout
      in if data = [] then Inr (Decoded (JObject []))
         else
           (let start = find_json_start data;
                data = (if start > 0 then drop start data else data)
            in case raw_decode lim data of
                 Ok obj _ \<Rightarrow> Inr (Decoded obj)
               | Crashed c \<Rightarrow> Inl c
               | JSONDecodeError \<Rightarrow>
                   (case extract_json_payload data of
                      None \<Rightarrow> Inr (Text data)
                    | Some cleaned \<Rightarrow>
                        (case raw_decode lim cleaned of
                           Ok obj _ \<Rightarrow> Inr (Decoded obj)
                         | Crashed c \<Rightarrow> Inl c
                         | JSONDecodeError \<Rightarrow> Inr (Text data)))))"

definition run ::
  "limits \<Rightarrow> (string list \<Rightarrow> proc_result) \<Rightarrow> VastAIClient \<Rightarrow> string list \<Rightarrow> bool \<Rightarrow> bool
     \<Rightarrow> exc + run_value" where
  "run lim sp self args raw capture_json =
     (let cmd = compose_command self args (raw \<or> capture_json)
      in case sp cmd of
           FileNotFound \<Rightarrow>
             Inl (CommandError
                    \<lparr>command = cmd, exit_code = 127, stderr = ''vastai CLI not found in PATH''\<rparr>)
         | OtherError name \<Rightarrow> Inl (Uncaught name)
         | Completed returncode out err \<Rightarrow>
             if returncode \<noteq> 0
             then Inl (CommandError \<lparr>command = cmd, exit_code = returncode, stderr = strip err\<rparr>)
             else if capture_json then
               (case decode_output lim out of
                  Inl c \<Rightarrow> Inl (DecoderCrash c)
                | Inr v \<Rightarrow> Inr v)
             else Inr (Text out))"

section \<open>The client: streaming a command\<close>

text \<open>
  \<open>stream\<close> is a generator around one child process. The child is described by what the
  supervisor can observe of it: the lines it writes, its standard error, whether it has
  already exited when the supervisor first looks after the loop (\<open>self_exit\<close>), whether it
  exits within the five-second wait that follows \<open>terminate()\<close> and with which status
  (\<open>on_terminate\<close>; by its own exit or by the signal), and the same for the wait that
  follows \<open>kill()\<close> (\<open>on_kill\<close>; \<open>None\<close> is a child that has not exited when that wait
  ends, as one blocked in the kernel).
\<close>

record child =
  stdout_lines :: "string list"
  stderr_text :: string
  self_exit :: "int option"
  on_terminate :: "int option"
  on_kill :: "int option"

datatype proc_state =
    NotStarted
  | Running
  | Exited int

datatype popen_call =
    Terminate
  | Kill

text \<open>The \<open>Popen\<close> object: the child's state and the calls made on it, in order.\<close>

record handle =
  state :: proc_state
  sent :: "popen_call list"
  stdout_closed :: bool
  stderr_closed :: bool

definition SIGTERM :: int where
  "SIGTERM = 15"

text \<open>\<open>poll()\<close> notices a child that has exited by itself.\<close>

definition poll :: "child \<Rightarrow> handle \<Rightarrow> handle" where
  "poll ch h =
     (if state h = Running
      then (case self_exit ch of Some rc \<Rightarrow> h\<lparr>state := Exited rc\<rparr> | None \<Rightarrow> h)
      else h)"

text \<open>\<open>terminate()\<close> polls first and signals only a child that still runs.\<close>

definition terminate :: "child \<Rightarrow> handle \<Rightarrow> handle" where
  "terminate ch h =
     (let h1 = poll ch h
      in if state h1 = Running then h1\<lparr>sent := sent h1 @ [Terminate]\<rparr> else h1)"

definition kill :: "child \<Rightarrow> handle \<Rightarrow> handle" where
  "kill ch h =
     (let h1 = poll ch h
      in if state h1 = Running then h1\<lparr>sent := sent h1 @ [Kill]\<rparr> else h1)"

text \<open>
  \<open>wait(timeout=5)\<close>: the handle after the wait, or \<open>None\<close> for \<open>TimeoutExpired\<close>. A child
  that was never signalled is not waited for by \<open>stream\<close>; it counts as still running.
\<close>

definition wait5 :: "child \<Rightarrow> handle \<Rightarrow> handle option" where
  "wait5 ch h =
     (case state h of
        Running \<Rightarrow>
          if Kill \<in> set (sent h) then
            (case on_kill ch of
               Some rc \<Rightarrow> Some (h\<lparr>state := Exited rc\<rparr>)
             | None \<Rightarrow> None)
          else if Terminate \<in> set (sent h) then
            (case on_terminate ch of
               Some rc \<Rightarrow> Some (h\<lparr>state := Exited rc\<rparr>)
             | None \<Rightarrow> None)
          else None
      | _ \<Rightarrow> Some h)"

text \<open>
  The block shared by the interrupt handler and the \<open>finally\<close> clause:
  \<open>terminate()\<close>, \<open>wait(timeout=5)\<close>, and on \<open>TimeoutExpired\<close> \<open>kill()\<close> and a second
  \<open>wait(timeout=5)\<close>. \<open>None\<close> is a \<open>TimeoutExpired\<close> of the second wait, which nothing
  catches.
\<close>

definition terminate_then_kill :: "child \<Rightarrow> handle \<Rightarrow> handle option" where
  "terminate_then_kill ch h =
     (let h1 = terminate ch h
      in case wait5 ch h1 of
           Some h2 \<Rightarrow> Some h2
         | None \<Rightarrow> wait5 ch (kill ch h1))"

text \<open>
  How the loop over the child's output ends: the output is exhausted, the consumer closes
  the generator after some lines (it stops iterating, breaks at the marker, or cancels),
  a \<open>KeyboardInterrupt\<close> arrives during a read, or a read fails with another exception.
  The number is the count of lines the consumer has received by then.
\<close>

datatype consumer =
    ConsumeAll
  | CloseAfter nat
  | InterruptAfter nat
  | ReadFailsAfter nat

datatype loop_end =
    Exhausted
  | GeneratorExit
  | KeyboardInterrupt
  | ReadError

record stream_result =
  yielded :: "string list"
  spawned :: nat
  final :: handle
  raised :: "exc option"

text \<open>\<open>line.rstrip("\n")\<close>.\<close>

definition rstrip_newlines :: "string \<Rightarrow> string" where
  "rstrip_newlines s = rev (dropWhile (\<lambda>c. c = CHR 0x0A) (rev s))"

text \<open>The lines the consumer receives and the way the loop ends.\<close>

definition run_loop :: "string list \<Rightarrow> consumer \<Rightarrow> string list \<times> loop_end" where
  "run_loop lines c =
     (case c of
        ConsumeAll \<Rightarrow> (lines, Exhausted)
      | CloseAfter k \<Rightarrow> if k \<le> length lines then (take k lines, GeneratorExit) else (lines, Exhausted)
      | InterruptAfter k \<Rightarrow>
          if k \<le> length lines then (take k lines, KeyboardInterrupt) else (lines, Exhausted)
      | ReadFailsAfter k \<Rightarrow>
          if k \<le> length lines then (take k lines, ReadError) else (lines, Exhausted))"

text \<open>
  The \<open>finally\<close> clause. \<open>pending\<close> is the exception in flight when it is entered; an
  exception raised by the clause itself replaces it.
\<close>

definition finally_clause ::
  "string list \<Rightarrow> child \<Rightarrow> handle \<Rightarrow> bool \<Rightarrow> exc option \<Rightarrow> handle \<times> exc option" where
  "finally_clause cmd ch h terminated pending =
     (let h0 = poll ch h
      in case (if state h0 = Running
               then map_option (\<lambda>h'. (h', True)) (terminate_then_kill ch h0)
               else Some (h0, terminated)) of
           None \<Rightarrow> (kill ch (terminate ch h0), Some TimeoutExpired)
         | Some (h1, terminated1) \<Rightarrow>
             (let h2 = h1\<lparr>stdout_closed := True, stderr_closed := True\<rparr>;
                  stderr_data = stderr_text ch;
                  exit_code = (case state h2 of Exited rc \<Rightarrow> rc | _ \<Rightarrow> 0);
                  exit_code = (if terminated1 \<and> (exit_code = - SIGTERM \<or> exit_code = 0)
                               then 0 else exit_code)
              in if exit_code \<noteq> 0 \<and> exit_code \<noteq> - 15 \<and> exit_code \<noteq> SIGTERM
                 then (h2, Some (CommandError
                         \<lparr>command = cmd, exit_code = exit_code, stderr = strip stderr_data\<rparr>))
                 else (h2, pending)))"

text \<open>
  \<open>stream\<close>, run to its end against a consumer. \<open>popen\<close> is \<open>subprocess.Popen\<close>: it
  starts a child or raises an exception (\<open>FileNotFoundError\<close>, \<open>PermissionError\<close>, another
  \<open>OSError\<close>; kept by its name), which \<open>stream\<close> does not catch. \<open>spawned\<close> counts the
  children started. A generator closed before its first line was requested never starts
  its body, so no process is spawned.
\<close>

definition stream ::
  "(string list \<Rightarrow> string + child) \<Rightarrow> VastAIClient \<Rightarrow> string list \<Rightarrow> bool \<Rightarrow> consumer
     \<Rightarrow> stream_result" where
  "stream popen self args raw c =
     (let cmd = compose_command self args raw;
          idle = \<lparr>state = NotStarted, sent = [], stdout_closed = False, stderr_closed = False\<rparr>
      in if c = CloseAfter 0
         then \<lparr>yielded = [], spawned = 0, final = idle, raised = None\<rparr>
         else
           (case popen cmd of
              Inl name \<Rightarrow> \<lparr>yielded = [], spawned = 0, final = idle, raised = Some (Uncaught name)\<rparr>
            | Inr ch \<Rightarrow>
                (let h = idle\<lparr>state := Running\<rparr>;
                     (lines, ending) = run_loop (stdout_lines ch) c;
                     out = map rstrip_newlines lines
                 in case ending of
                      KeyboardInterrupt \<Rightarrow>
                        (case terminate_then_kill ch h of
                           None \<Rightarrow>
                             (let (h', exc) = finally_clause cmd ch (kill ch (terminate ch h)) True
                                                (Some TimeoutExpired)
                              in \<lparr>yielded = out, spawned = 1, final = h', raised = exc\<rparr>)
                         | Some h1 \<Rightarrow>
                             (let (h', exc) = finally_clause cmd ch h1 True (Some KeyboardInterruptExc)
                              in \<lparr>yielded = out, spawned = 1, final = h', raised = exc\<rparr>))
                    | ReadError \<Rightarrow>
                        (let (h', exc) = finally_clause cmd ch h False (Some ReadErrorExc)
                         in \<lparr>yielded = out, spawned = 1, final = h', raised = exc\<rparr>)
                    | _ \<Rightarrow>
                        (let (h', exc) = finally_clause cmd ch h False None
                         in \<lparr>yielded = out, spawned = 1, final = h', raised = exc\<rparr>))))"

section \<open>The decoder: consumed text and the bound on nested calls\<close>










lemma starts_with_length: "starts_with p s \<Longrightarrow> length p \<le> length s"
  by (metis starts_with_def length_take min.cobounded1 min.commute)





section \<open>The decoder ignores what follows a complete value\<close>








lemma match_frac_nil: "match_frac s = ([], r) \<Longrightarrow> r = s"
  by (auto simp: match_frac_def split: list.splits if_splits)

lemma match_exp_nil: "match_exp s = ([], r) \<Longrightarrow> r = s"
  by (auto simp: match_exp_def Let_def split: list.splits if_splits)







lemma starts_with_drop:
  "starts_with p s \<Longrightarrow> drop (length p) (s @ t) = drop (length p) s @ t"
  using starts_with_length [of p s] by simp












section \<open>The structured-output branch\<close>

lemma rstrip_prefix: "rstrip s @ rev (takeWhile py_isspace (rev s)) = s"
proof -
  have "rev (takeWhile py_isspace (rev s) @ dropWhile py_isspace (rev s)) = s" by simp
  then show ?thesis unfolding rstrip_def rev_append by simp
qed

lemma strip_hd_not_space:
  assumes "strip s \<noteq> []"
  shows "\<not> py_isspace (hd (strip s))"
proof -
  have l: "lstrip s \<noteq> []" using assms by (auto simp: strip_def rstrip_def)
  then have "\<not> py_isspace (hd (lstrip s))" unfolding lstrip_def by (rule hd_dropWhile)
  moreover have "hd (strip s) = hd (lstrip s)"
    using rstrip_prefix [of "lstrip s"] assms unfolding strip_def
    by (metis hd_append2)
  ultimately show ?thesis by simp
qed

lemma find_json_start_not_space:
  "s \<noteq> [] \<Longrightarrow> \<not> py_isspace (hd s) \<Longrightarrow> find_json_start s = 0"
  by (cases s) (auto simp: find_json_start_def)

lemma find_json_start_strip: "find_json_start (strip s) = 0"
proof (cases "strip s = []")
  case True
  then show ?thesis by (simp add: find_json_start_def)
next
  case False
  then show ?thesis by (intro find_json_start_not_space strip_hd_not_space)
qed


lemma decode_output_unfold:
  "decode_output lim out =
     (if strip out = [] then Inr (Decoded (JObject []))
      else case raw_decode lim (strip out) of
             Ok obj _ \<Rightarrow> Inr (Decoded obj)
           | Crashed c \<Rightarrow> Inl c
           | JSONDecodeError \<Rightarrow>
               (case extract_json_payload (strip out) of
                  None \<Rightarrow> Inr (Text (strip out))
                | Some cleaned \<Rightarrow>
                    (case raw_decode lim cleaned of
                       Ok obj _ \<Rightarrow> Inr (Decoded obj)
                     | Crashed c \<Rightarrow> Inl c
                     | JSONDecodeError \<Rightarrow> Inr (Text (strip out)))))"
  by (simp add: decode_output_def Let_def find_json_start_strip)







section \<open>Texts the decoder rejects at the first character\<close>


section \<open>Nesting deeper than the interpreter allows\<close>

lemma skip_ws_bracket: "skip_ws (CHR ''['' # s) = CHR ''['' # s"
  by (simp add: skip_ws_def json_ws_def)

lemma deep_nesting_scan:
  "d < k \<Longrightarrow> 2 * d < n \<Longrightarrow>
   scan_once md n d (replicate k CHR ''['' @ rest) = Crashed RecursionError"
proof (induction d arbitrary: k n)
  case 0
  then obtain k' n' where "k = Suc k'" "n = Suc n'"
    by (cases k; cases n) auto
  then show ?case by simp
next
  case (Suc d)
  define k' where "k' = k - 2"
  define n' where "n' = n - 2"
  have k: "k = Suc (Suc k')" and n: "n = Suc (Suc n')" and lt: "d < Suc k'" "2 * d < n'"
    using Suc.prems by (simp_all add: k'_def n'_def)
  have ih: "scan_once md n' d (CHR ''['' # replicate k' CHR ''['' @ rest) = Crashed RecursionError"
    using Suc.IH [OF lt] by simp
  show ?case
    unfolding k n by (simp add: skip_ws_bracket ih)
qed

lemma strip_no_space_ends:
  assumes "s \<noteq> []" and "\<not> py_isspace (hd s)" and "\<not> py_isspace (last s)"
  shows "strip s = s"
proof -
  have "lstrip s = s" using assms by (cases s) (auto simp: lstrip_def)
  moreover have "rstrip s = s"
    using assms by (cases "rev s") (auto simp: rstrip_def last_rev [symmetric] simp del: last_rev)
  ultimately show ?thesis by (simp add: strip_def)
qed

lemma deep_nesting_decode:
  assumes "strip out = replicate k CHR ''['' @ rest" and "max_depth lim < k"
  shows "decode_output lim out = Inl RecursionError"
proof -
  have ne: "strip out \<noteq> []" using assms by auto
  have "2 * max_depth lim < 2 * length (strip out) + 1" using assms by simp
  then have "raw_decode lim (strip out) = Crashed RecursionError"
    unfolding raw_decode_def assms(1) [symmetric]
    using deep_nesting_scan [OF assms(2), of "2 * length (strip out) + 1" "max_digits lim" rest]
      assms(1) by simp
  then show ?thesis unfolding decode_output_unfold using ne by simp
qed

section \<open>Where the bracket scan of \<open>_extract_json_payload\<close> fails\<close>

lemma balance_scan_plain:
  "\<not> is_bracket c \<Longrightarrow> balance_scan n stack (c # s) = balance_scan (Suc n) stack s"
  by (simp add: is_bracket_def)







section \<open>Properties of \<open>run\<close>\<close>

lemma strip_all_space:
  assumes "\<forall>c\<in>set s. py_isspace c"
  shows "strip s = []"
  using assms by (auto simp: strip_def lstrip_def rstrip_def dest: set_dropWhileD)

text \<open>
  C10. When structured output is requested (\<open>capture_json\<close>) and the process exits 0
  with an empty or whitespace-only standard output, \<open>run\<close> returns the empty mapping
  \<open>{}\<close>: neither the raw text nor an error.
\<close>

theorem run_empty_stdout_is_empty_mapping:
  assumes "sp (compose_command self args True) = Completed 0 out err"
    and "\<forall>c\<in>set out. py_isspace c"
  shows "run lim sp self args raw True = Inr (Decoded (JObject []))"
  using assms by (simp add: run_def decode_output_def strip_all_space)

theorem run_empty_stdout_is_empty_mapping_witness:
  "run \<lparr>max_depth = 1000, max_digits = Some 4300\<rparr> (\<lambda>cmd. Completed 0 '' \<newline>  '' ''warn'')
     \<lparr>binary = ''vastai'', api_key = None\<rparr> [''show'', ''instances''] False True
   = Inr (Decoded (JObject []))"
  by (rule run_empty_stdout_is_empty_mapping [where out = "'' \<newline>  ''" and err = "''warn''"])
     (simp_all add: py_isspace_def)

text \<open>
  C4 (as amended). \<open>run\<close> raises \<open>VastAICommandError\<close> exactly when the binary is not
  found or the process returns a non-zero code: in the first case with exit code 127, the
  composed command and the fixed message, in the second with the return code and the
  captured standard error stripped of surrounding whitespace. Any other exception of
  \<open>subprocess.run\<close> leaves \<open>run\<close> as it is. On return code 0 without \<open>capture_json\<close>,
  \<open>run\<close> returns the captured standard output unchanged. On return code 0 with
  \<open>capture_json\<close> it can still raise: a stripped output that begins with more opening
  square brackets than the decoder may nest raises \<open>RecursionError\<close>.
\<close>

theorem run_raises_command_error_iff_not_found_or_nonzero:
  "((\<exists>e. run lim sp self args raw cj = Inl (CommandError e)) =
      (sp (compose_command self args (raw \<or> cj)) = FileNotFound
       \<or> (\<exists>rc out err. sp (compose_command self args (raw \<or> cj)) = Completed rc out err
             \<and> rc \<noteq> 0)))
   \<and> (sp (compose_command self args (raw \<or> cj)) = FileNotFound \<longrightarrow>
        run lim sp self args raw cj =
          Inl (CommandError
                 \<lparr>command = compose_command self args (raw \<or> cj), exit_code = 127,
                  stderr = ''vastai CLI not found in PATH''\<rparr>))
   \<and> (sp (compose_command self args (raw \<or> cj)) = Completed rc out err \<and> rc \<noteq> 0 \<longrightarrow>
        run lim sp self args raw cj =
          Inl (CommandError
                 \<lparr>command = compose_command self args (raw \<or> cj), exit_code = rc,
                  stderr = strip err\<rparr>))
   \<and> (sp (compose_command self args (raw \<or> cj)) = OtherError name \<longrightarrow>
        run lim sp self args raw cj = Inl (Uncaught name))
   \<and> (sp (compose_command self args (raw \<or> cj)) = Completed 0 out err \<and> \<not> cj \<longrightarrow>
        run lim sp self args raw cj = Inr (Text out))
   \<and> (sp (compose_command self args (raw \<or> cj)) = Completed 0 out err \<and> cj
        \<and> strip out = replicate k CHR ''['' @ rest \<and> max_depth lim < k \<longrightarrow>
        run lim sp self args raw cj = Inl (DecoderCrash RecursionError))"
proof -
  let ?cmd = "compose_command self args (raw \<or> cj)"
  have iff: "(\<exists>e. run lim sp self args raw cj = Inl (CommandError e)) =
      (sp ?cmd = FileNotFound \<or> (\<exists>rc out err. sp ?cmd = Completed rc out err \<and> rc \<noteq> 0))"
    by (cases "sp ?cmd") (auto simp: run_def split: sum.splits)
  have nf: "sp ?cmd = FileNotFound \<longrightarrow>
        run lim sp self args raw cj =
          Inl (CommandError \<lparr>command = ?cmd, exit_code = 127,
                              stderr = ''vastai CLI not found in PATH''\<rparr>)"
    by (simp add: run_def)
  have nz: "sp ?cmd = Completed rc out err \<and> rc \<noteq> 0 \<longrightarrow>
        run lim sp self args raw cj =
          Inl (CommandError \<lparr>command = ?cmd, exit_code = rc, stderr = strip err\<rparr>)"
    by (simp add: run_def)
  have other: "sp ?cmd = OtherError name \<longrightarrow> run lim sp self args raw cj = Inl (Uncaught name)"
    by (simp add: run_def)
  have plain: "sp ?cmd = Completed 0 out err \<and> \<not> cj \<longrightarrow>
        run lim sp self args raw cj = Inr (Text out)"
    by (auto simp: run_def)
  have deep: "sp ?cmd = Completed 0 out err \<and> cj
        \<and> strip out = replicate k CHR ''['' @ rest \<and> max_depth lim < k \<longrightarrow>
        run lim sp self args raw cj = Inl (DecoderCrash RecursionError)"
    using deep_nesting_decode [of out k rest lim] by (auto simp: run_def)
  from iff nf nz other plain deep show ?thesis by blast
qed

theorem run_raises_command_error_iff_not_found_or_nonzero_witness:
  "run \<lparr>max_depth = 1000, max_digits = Some 4300\<rparr> (\<lambda>cmd. FileNotFound)
       \<lparr>binary = ''vastai'', api_key = Some ''k1''\<rparr> [''show'', ''user''] False True
     = Inl (CommandError
         \<lparr>command = [''vastai'', ''show'', ''user'', ''--raw'', ''--api-key'', ''k1''],
          exit_code = 127, stderr = ''vastai CLI not found in PATH''\<rparr>)
   \<and> run \<lparr>max_depth = 1000, max_digits = Some 4300\<rparr> (\<lambda>cmd. Completed 2 ''partial'' '' boom\<newline>'')
        \<lparr>binary = ''vastai'', api_key = None\<rparr> [''logs'', ''7''] False False
     = Inl (CommandError
         \<lparr>command = [''vastai'', ''logs'', ''7''], exit_code = 2, stderr = ''boom''\<rparr>)
   \<and> run \<lparr>max_depth = 1000, max_digits = Some 4300\<rparr> (\<lambda>cmd. OtherError ''PermissionError'')
        \<lparr>binary = ''vastai'', api_key = None\<rparr> [''logs'', ''7''] False False
     = Inl (Uncaught ''PermissionError'')
   \<and> run \<lparr>max_depth = 1000, max_digits = Some 4300\<rparr> (\<lambda>cmd. Completed 0 ''line\<newline>'' ''note'')
        \<lparr>binary = ''vastai'', api_key = None\<rparr> [''logs'', ''7''] False False
     = Inr (Text ''line\<newline>'')
   \<and> run \<lparr>max_depth = 2, max_digits = Some 4300\<rparr> (\<lambda>cmd. Completed 0 '' [[[1]]]\<newline>'' [])
        \<lparr>binary = ''vastai'', api_key = None\<rparr> [''show'', ''instances''] False True
     = Inl (DecoderCrash RecursionError)"
proof -
  let ?lim = "\<lparr>max_depth = 1000, max_digits = Some 4300\<rparr>"
  let ?self = "\<lparr>binary = ''vastai'', api_key = None\<rparr>"
  have s: "strip '' [[[1]]]\<newline>'' = replicate 3 CHR ''['' @ ''1]]]''" by code_simp
  show ?thesis
    using run_raises_command_error_iff_not_found_or_nonzero
            [of ?lim "\<lambda>cmd. FileNotFound" "\<lparr>binary = ''vastai'', api_key = Some ''k1''\<rparr>"
                "[''show'', ''user'']" False True]
          run_raises_command_error_iff_not_found_or_nonzero
            [of ?lim "\<lambda>cmd. Completed 2 ''partial'' '' boom\<newline>''" ?self
                "[''logs'', ''7'']" False False 2 "''partial''" "'' boom\<newline>''"]
          run_raises_command_error_iff_not_found_or_nonzero
            [of ?lim "\<lambda>cmd. OtherError ''PermissionError''" ?self
                "[''logs'', ''7'']" False False _ _ _ "''PermissionError''"]
          run_raises_command_error_iff_not_found_or_nonzero
            [of ?lim "\<lambda>cmd. Completed 0 ''line\<newline>'' ''note''" ?self
                "[''logs'', ''7'']" False False _ "''line\<newline>''" "''note''"]
          run_raises_command_error_iff_not_found_or_nonzero
            [of "\<lparr>max_depth = 2, max_digits = Some 4300\<rparr>" "\<lambda>cmd. Completed 0 '' [[[1]]]\<newline>'' []"
                ?self "[''show'', ''instances'']" False True _ "'' [[[1]]]\<newline>''" "[]" _ 3 "''1]]]''"]
          s
    by (simp add: compose_command_def strip_def lstrip_def rstrip_def py_isspace_def)
qed

text \<open>
  The claim as stated fails in both directions. An invocation can fail without a
  \<open>VastAICommandError\<close>: a binary that is found but may not be executed makes
  \<open>subprocess.run\<close> raise \<open>PermissionError\<close>, which \<open>run\<close> does not catch. And \<open>run\<close>
  can raise on return code 0: with 1000 levels of nesting left, an output of 2000 opening
  brackets makes the decoder raise \<open>RecursionError\<close>, which is not a \<open>JSONDecodeError\<close>.
\<close>

theorem run_exit_zero_or_failure_counterexample:
  "run \<lparr>max_depth = 1000, max_digits = Some 4300\<rparr> (\<lambda>cmd. OtherError ''PermissionError'')
       \<lparr>binary = ''vastai'', api_key = None\<rparr> [''show'', ''instances''] False True
     = Inl (Uncaught ''PermissionError'')
   \<and> run \<lparr>max_depth = 1000, max_digits = Some 4300\<rparr>
        (\<lambda>cmd. Completed 0 (replicate 2000 CHR ''['') [])
        \<lparr>binary = ''vastai'', api_key = None\<rparr> [''show'', ''instances''] False True
     = Inl (DecoderCrash RecursionError)"
proof -
  have "strip (replicate 2000 CHR ''['') = replicate 2000 CHR ''['' @ []"
    by (simp add: strip_no_space_ends py_isspace_def)
  then have "decode_output \<lparr>max_depth = 1000, max_digits = Some 4300\<rparr> (replicate 2000 CHR ''['')
      = Inl RecursionError"
    by (rule deep_nesting_decode) simp
  then show ?thesis by (simp add: run_def)
qed

section \<open>Decoding output that surrounds JSON with noise\<close>




section \<open>Output that does not decode\<close>





section \<open>Properties of \<open>stream\<close>\<close>

lemma poll_running: "state (poll ch h) = Running \<Longrightarrow> state h = Running \<and> self_exit ch = None"
  by (cases "state h"; cases "self_exit ch") (auto simp: poll_def)

lemma poll_started: "state h \<noteq> NotStarted \<Longrightarrow> state (poll ch h) \<noteq> NotStarted"
  by (auto simp: poll_def split: option.splits)

lemma terminate_then_kill_result:
  assumes "state h \<noteq> NotStarted"
  shows "(\<exists>h' rc. terminate_then_kill ch h = Some h' \<and> state h' = Exited rc)
       \<or> (terminate_then_kill ch h = None \<and> state (kill ch (terminate ch h)) = Running)"
  using assms
  by (cases "state h"; cases "self_exit ch"; cases "on_terminate ch"; cases "on_kill ch")
     (auto simp: terminate_then_kill_def terminate_def kill_def poll_def wait5_def Let_def)

lemma finally_clause_raises:
  assumes "state h \<noteq> NotStarted" and "p \<noteq> Some (CommandError e)"
  shows "snd (finally_clause cmd ch h t p) = Some (CommandError e) \<longleftrightarrow>
         (state (fst (finally_clause cmd ch h t p)) = Exited (exit_code e)
          \<and> exit_code e \<noteq> 0 \<and> exit_code e \<noteq> - SIGTERM \<and> exit_code e \<noteq> SIGTERM
          \<and> command e = cmd \<and> stderr e = strip (stderr_text ch)
          \<and> VastAICommandError.more e = ())"
proof -
  have p: "state (poll ch h) \<noteq> NotStarted"
    using assms(1) by (rule poll_started)
  show ?thesis
  proof (cases "state (poll ch h) = Running")
    case True
    from terminate_then_kill_result [OF p, of ch] show ?thesis
    proof
      assume "\<exists>h' rc. terminate_then_kill ch (poll ch h) = Some h' \<and> state h' = Exited rc"
      then obtain h' rc where "terminate_then_kill ch (poll ch h) = Some h'" "state h' = Exited rc"
        by blast
      with True assms(2) show ?thesis
        by (cases e) (auto simp: finally_clause_def Let_def SIGTERM_def)
    next
      assume "terminate_then_kill ch (poll ch h) = None
          \<and> state (kill ch (terminate ch (poll ch h))) = Running"
      with True show ?thesis
        by (simp add: finally_clause_def Let_def)
    qed
  next
    case False
    with p obtain rc where "state (poll ch h) = Exited rc" by (cases "state (poll ch h)") auto
    with assms(2) show ?thesis
      by (cases e) (auto simp: finally_clause_def Let_def SIGTERM_def)
  qed
qed

lemma stream_cases:
  "(\<exists>x. stream popen self args raw c =
      \<lparr>yielded = [], spawned = 0,
       final = \<lparr>state = NotStarted, sent = [], stdout_closed = False, stderr_closed = False\<rparr>,
       raised = x\<rparr> \<and> (\<forall>e. x \<noteq> Some (CommandError e)))
   \<or> (\<exists>ch h t p. c \<noteq> CloseAfter 0 \<and> popen (compose_command self args raw) = Inr ch
        \<and> state h \<noteq> NotStarted \<and> (\<forall>e. p \<noteq> Some (CommandError e))
        \<and> spawned (stream popen self args raw c) = 1
        \<and> final (stream popen self args raw c)
            = fst (finally_clause (compose_command self args raw) ch h t p)
        \<and> raised (stream popen self args raw c)
            = snd (finally_clause (compose_command self args raw) ch h t p))"
proof (cases "c = CloseAfter 0 \<or> (\<exists>name. popen (compose_command self args raw) = Inl name)")
  case True
  then show ?thesis by (auto simp: stream_def Let_def)
next
  case False
  then obtain ch where ch: "popen (compose_command self args raw) = Inr ch" and c: "c \<noteq> CloseAfter 0"
    by (cases "popen (compose_command self args raw)") auto
  define h0 where "h0 = \<lparr>state = Running, sent = [], stdout_closed = False, stderr_closed = False\<rparr>"
  obtain lines ending where rl: "run_loop (stdout_lines ch) c = (lines, ending)"
    by (cases "run_loop (stdout_lines ch) c")
  have h0: "state h0 \<noteq> NotStarted" by (simp add: h0_def)
  show ?thesis
  proof (cases ending)
    case KeyboardInterrupt
    from terminate_then_kill_result [OF h0, of ch] show ?thesis
    proof
      assume "\<exists>h' rc. terminate_then_kill ch h0 = Some h' \<and> state h' = Exited rc"
      then obtain h1 rc where tk: "terminate_then_kill ch h0 = Some h1" "state h1 = Exited rc"
        by blast
      have "spawned (stream popen self args raw c) = 1
          \<and> final (stream popen self args raw c)
              = fst (finally_clause (compose_command self args raw) ch h1 True
                      (Some KeyboardInterruptExc))
          \<and> raised (stream popen self args raw c)
              = snd (finally_clause (compose_command self args raw) ch h1 True
                      (Some KeyboardInterruptExc))"
        using ch c rl KeyboardInterrupt tk
        by (simp add: stream_def Let_def h0_def split: prod.splits)
      moreover have "state h1 \<noteq> NotStarted" using tk by simp
      ultimately show ?thesis using ch c by blast
    next
      assume tk: "terminate_then_kill ch h0 = None \<and> state (kill ch (terminate ch h0)) = Running"
      have "spawned (stream popen self args raw c) = 1
          \<and> final (stream popen self args raw c)
              = fst (finally_clause (compose_command self args raw) ch (kill ch (terminate ch h0))
                      True (Some TimeoutExpired))
          \<and> raised (stream popen self args raw c)
              = snd (finally_clause (compose_command self args raw) ch (kill ch (terminate ch h0))
                      True (Some TimeoutExpired))"
        using ch c rl KeyboardInterrupt tk
        by (simp add: stream_def Let_def h0_def split: prod.splits)
      moreover have "state (kill ch (terminate ch h0)) \<noteq> NotStarted" using tk by simp
      ultimately show ?thesis using ch c by blast
    qed
  next
    case ReadError
    have "spawned (stream popen self args raw c) = 1
        \<and> final (stream popen self args raw c)
            = fst (finally_clause (compose_command self args raw) ch h0 False (Some ReadErrorExc))
        \<and> raised (stream popen self args raw c)
            = snd (finally_clause (compose_command self args raw) ch h0 False (Some ReadErrorExc))"
      using ch c rl ReadError
      by (simp add: stream_def Let_def h0_def split: prod.splits)
    then show ?thesis using ch c h0 by blast
  next
    case Exhausted
    have "spawned (stream popen self args raw c) = 1
        \<and> final (stream popen self args raw c)
            = fst (finally_clause (compose_command self args raw) ch h0 False None)
        \<and> raised (stream popen self args raw c)
            = snd (finally_clause (compose_command self args raw) ch h0 False None)"
      using ch c rl Exhausted
      by (simp add: stream_def Let_def h0_def split: prod.splits)
    then show ?thesis using ch c h0 by blast
  next
    case GeneratorExit
    have "spawned (stream popen self args raw c) = 1
        \<and> final (stream popen self args raw c)
            = fst (finally_clause (compose_command self args raw) ch h0 False None)
        \<and> raised (stream popen self args raw c)
            = snd (finally_clause (compose_command self args raw) ch h0 False None)"
      using ch c rl GeneratorExit
      by (simp add: stream_def Let_def h0_def split: prod.splits)
    then show ?thesis using ch c h0 by blast
  qed
qed

text \<open>
  C6. After the stream ends, \<open>stream\<close> raises \<open>VastAICommandError\<close> exactly when the child's
  final exit code is none of 0, \<open>-SIGTERM\<close> and \<open>SIGTERM\<close>; the error carries that code. In
  particular a child that exits with \<open>-SIGTERM\<close> after the supervisor's own \<open>terminate()\<close>
  raises nothing.
\<close>

theorem stream_raises_iff_exit_code_not_benign:
  "((\<exists>e. raised (stream popen self args raw c) = Some (CommandError e)) =
      (\<exists>rc. state (final (stream popen self args raw c)) = Exited rc
            \<and> rc \<noteq> 0 \<and> rc \<noteq> - SIGTERM \<and> rc \<noteq> SIGTERM))
   \<and> (\<forall>e. raised (stream popen self args raw c) = Some (CommandError e) \<longrightarrow>
          state (final (stream popen self args raw c)) = Exited (exit_code e)
          \<and> command e = compose_command self args raw)"
proof -
  let ?r = "stream popen self args raw c"
  let ?cmd = "compose_command self args raw"
  from stream_cases [of popen self args raw c] show ?thesis
  proof
    assume "\<exists>x. ?r = \<lparr>yielded = [], spawned = 0,
       final = \<lparr>state = NotStarted, sent = [], stdout_closed = False, stderr_closed = False\<rparr>,
       raised = x\<rparr> \<and> (\<forall>e. x \<noteq> Some (CommandError e))"
    then obtain x where "?r = \<lparr>yielded = [], spawned = 0,
       final = \<lparr>state = NotStarted, sent = [], stdout_closed = False, stderr_closed = False\<rparr>,
       raised = x\<rparr>" and "\<And>e. x \<noteq> Some (CommandError e)" by blast
    then show ?thesis by simp
  next
    assume "\<exists>ch h t p. c \<noteq> CloseAfter 0 \<and> popen ?cmd = Inr ch
        \<and> state h \<noteq> NotStarted \<and> (\<forall>e. p \<noteq> Some (CommandError e))
        \<and> spawned ?r = 1
        \<and> final ?r = fst (finally_clause ?cmd ch h t p)
        \<and> raised ?r = snd (finally_clause ?cmd ch h t p)"
    then obtain ch h t p where h: "state h \<noteq> NotStarted" and p: "\<And>e. p \<noteq> Some (CommandError e)"
      and f: "final ?r = fst (finally_clause ?cmd ch h t p)"
      and r: "raised ?r = snd (finally_clause ?cmd ch h t p)"
      by blast
    note R = finally_clause_raises [OF h p, of ?cmd ch t, folded f r]
    have a: "state (final ?r) = Exited (exit_code e) \<and> command e = ?cmd"
      if "raised ?r = Some (CommandError e)" for e
      using R [of e] that by blast
    have b: "\<exists>e. raised ?r = Some (CommandError e)"
      if "state (final ?r) = Exited rc" "rc \<noteq> 0" "rc \<noteq> - SIGTERM" "rc \<noteq> SIGTERM" for rc
      using R [of "\<lparr>command = ?cmd, exit_code = rc, stderr = strip (stderr_text ch)\<rparr>"] that
      by auto
    have c: "\<exists>rc. state (final ?r) = Exited rc \<and> rc \<noteq> 0 \<and> rc \<noteq> - SIGTERM \<and> rc \<noteq> SIGTERM"
      if "raised ?r = Some (CommandError e)" for e
      using R [of e] that by blast
    from a b c show ?thesis by blast
  qed
qed

theorem stream_raises_iff_exit_code_not_benign_witness:
  "(\<exists>e. raised (stream (\<lambda>cmd. Inr \<lparr>stdout_lines = [''a\<newline>''], stderr_text = '' boom\<newline>'',
              self_exit = Some 3, on_terminate = None, on_kill = Some (- 9)\<rparr>)
            \<lparr>binary = ''vastai'', api_key = None\<rparr> [''logs'', ''7'', ''--follow''] False ConsumeAll)
        = Some (CommandError e) \<and> exit_code e = 3
        \<and> command e = [''vastai'', ''logs'', ''7'', ''--follow''])
   \<and> \<not> (\<exists>e. raised (stream (\<lambda>cmd. Inr \<lparr>stdout_lines = [''a\<newline>'', ''b\<newline>''], stderr_text = [],
              self_exit = None, on_terminate = Some (- 15), on_kill = Some (- 9)\<rparr>)
            \<lparr>binary = ''vastai'', api_key = None\<rparr> [''logs'', ''7'', ''--follow''] False (CloseAfter 1))
        = Some (CommandError e))"
proof -
  let ?p1 = "\<lambda>cmd :: string list. Inr \<lparr>stdout_lines = [''a\<newline>'', ''b\<newline>''], stderr_text = [],
              self_exit = None, on_terminate = Some (- 15), on_kill = Some (- 9)\<rparr> :: string + child"
  let ?p2 = "\<lambda>cmd :: string list. Inr \<lparr>stdout_lines = [''a\<newline>''], stderr_text = '' boom\<newline>'',
              self_exit = Some 3, on_terminate = None, on_kill = Some (- 9)\<rparr> :: string + child"
  let ?self = "\<lparr>binary = ''vastai'', api_key = None\<rparr>"
  let ?args = "[''logs'', ''7'', ''--follow'']"
  have f1: "state (final (stream ?p1 ?self ?args False (CloseAfter 1))) = Exited (- 15)"
    by code_simp
  have f2: "state (final (stream ?p2 ?self ?args False ConsumeAll)) = Exited 3"
    by code_simp
  have c: "compose_command ?self ?args False = [''vastai'', ''logs'', ''7'', ''--follow'']"
    by (simp add: compose_command_def)
  have t1: "\<not> (\<exists>e. raised (stream ?p1 ?self ?args False (CloseAfter 1)) = Some (CommandError e))"
    using stream_raises_iff_exit_code_not_benign [of ?p1 ?self ?args False "CloseAfter 1"] f1
    by (simp add: SIGTERM_def)
  have t2: "\<exists>e. raised (stream ?p2 ?self ?args False ConsumeAll) = Some (CommandError e)"
    using stream_raises_iff_exit_code_not_benign [of ?p2 ?self ?args False ConsumeAll] f2
    by (simp add: SIGTERM_def)
  then obtain e where e: "raised (stream ?p2 ?self ?args False ConsumeAll) = Some (CommandError e)"
    by blast
  then have "exit_code e = 3 \<and> command e = [''vastai'', ''logs'', ''7'', ''--follow'']"
    using stream_raises_iff_exit_code_not_benign [of ?p2 ?self ?args False ConsumeAll] f2 c
    by auto
  with e t1 show ?thesis by blast
qed

section \<open>How \<open>stream\<close> leaves the child\<close>

lemma stream_not_spawned:
  assumes "c = CloseAfter 0 \<or> popen (compose_command self args raw) = Inl name"
  shows "spawned (stream popen self args raw c) = 0
       \<and> state (final (stream popen self args raw c)) = NotStarted"
  using assms by (auto simp: stream_def Let_def)

lemma stream_spawned:
  assumes c: "c \<noteq> CloseAfter 0" and ch: "popen (compose_command self args raw) = Inr ch"
  shows "spawned (stream popen self args raw c) = 1"
proof -
  obtain lines ending where rl: "run_loop (stdout_lines ch) c = (lines, ending)"
    by (cases "run_loop (stdout_lines ch) c")
  show ?thesis
    using c ch rl
    by (cases ending)
       (auto simp: stream_def Let_def split: prod.splits option.splits)
qed

lemma stream_child_had_exited:
  assumes c: "c \<noteq> CloseAfter 0" and ch: "popen (compose_command self args raw) = Inr ch"
    and ex: "self_exit ch = Some rc"
  shows "final (stream popen self args raw c)
         = \<lparr>state = Exited rc, sent = [], stdout_closed = True, stderr_closed = True\<rparr>"
proof -
  obtain lines ending where rl: "run_loop (stdout_lines ch) c = (lines, ending)"
    by (cases "run_loop (stdout_lines ch) c")
  show ?thesis
    using c ch rl ex
    by (cases ending)
       (simp_all add: stream_def Let_def finally_clause_def terminate_then_kill_def terminate_def
          kill_def poll_def wait5_def)
qed

lemma stream_child_exits_on_terminate:
  assumes c: "c \<noteq> CloseAfter 0" and ch: "popen (compose_command self args raw) = Inr ch"
    and ex: "self_exit ch = None" "on_terminate ch = Some rc"
  shows "final (stream popen self args raw c)
         = \<lparr>state = Exited rc, sent = [Terminate], stdout_closed = True, stderr_closed = True\<rparr>"
proof -
  obtain lines ending where rl: "run_loop (stdout_lines ch) c = (lines, ending)"
    by (cases "run_loop (stdout_lines ch) c")
  show ?thesis
    using c ch rl ex
    by (cases ending)
       (simp_all add: stream_def Let_def finally_clause_def terminate_then_kill_def terminate_def
          kill_def poll_def wait5_def)
qed

lemma stream_child_exits_on_kill:
  assumes c: "c \<noteq> CloseAfter 0" and ch: "popen (compose_command self args raw) = Inr ch"
    and ex: "self_exit ch = None" "on_terminate ch = None" "on_kill ch = Some rc"
  shows "final (stream popen self args raw c)
         = \<lparr>state = Exited rc, sent = [Terminate, Kill], stdout_closed = True,
            stderr_closed = True\<rparr>"
proof -
  obtain lines ending where rl: "run_loop (stdout_lines ch) c = (lines, ending)"
    by (cases "run_loop (stdout_lines ch) c")
  show ?thesis
    using c ch rl ex
    by (cases ending)
       (simp_all add: stream_def Let_def finally_clause_def terminate_then_kill_def terminate_def
          kill_def poll_def wait5_def)
qed

lemma stream_child_survives_kill:
  assumes c: "c \<noteq> CloseAfter 0" and ch: "popen (compose_command self args raw) = Inr ch"
    and ex: "self_exit ch = None" "on_terminate ch = None" "on_kill ch = None"
  shows "state (final (stream popen self args raw c)) = Running
       \<and> \<not> stdout_closed (final (stream popen self args raw c))
       \<and> \<not> stderr_closed (final (stream popen self args raw c))
       \<and> raised (stream popen self args raw c) = Some TimeoutExpired"
proof -
  obtain lines ending where rl: "run_loop (stdout_lines ch) c = (lines, ending)"
    by (cases "run_loop (stdout_lines ch) c")
  show ?thesis
    using c ch rl ex
    by (cases ending)
       (simp_all add: stream_def Let_def finally_clause_def terminate_then_kill_def terminate_def
          kill_def poll_def wait5_def)
qed

text \<open>
  C9 (as amended). \<open>stream\<close> starts one child, and none when the generator is closed
  before its first line is requested or \<open>Popen\<close> raises. However the session ends (the
  output is exhausted, the consumer closes the generator after any number of lines, an
  interrupt or an error arrives during a read), a child that exits by the end of the wait
  that follows \<open>kill()\<close> has exited when \<open>stream\<close> ends, with both pipes closed, and
  \<open>stream\<close> has signalled it no more than needed: not at all when it had exited by
  itself, with \<open>terminate()\<close> alone when it exits within the wait that follows, and with
  \<open>terminate()\<close> and then \<open>kill()\<close> otherwise. A child that has not exited when the wait
  after \<open>kill()\<close> ends is left running, its pipes open, and \<open>stream\<close> raises
  \<open>TimeoutExpired\<close>.
\<close>

theorem stream_teardown_follows_child:
  "(c = CloseAfter 0 \<or> popen (compose_command self args raw) = Inl name \<longrightarrow>
      spawned (stream popen self args raw c) = 0
      \<and> state (final (stream popen self args raw c)) = NotStarted)
   \<and> (c \<noteq> CloseAfter 0 \<and> popen (compose_command self args raw) = Inr ch \<longrightarrow>
      spawned (stream popen self args raw c) = 1
      \<and> (self_exit ch = Some rc \<longrightarrow>
           final (stream popen self args raw c)
             = \<lparr>state = Exited rc, sent = [], stdout_closed = True, stderr_closed = True\<rparr>)
      \<and> (self_exit ch = None \<and> on_terminate ch = Some rc \<longrightarrow>
           final (stream popen self args raw c)
             = \<lparr>state = Exited rc, sent = [Terminate], stdout_closed = True,
                stderr_closed = True\<rparr>)
      \<and> (self_exit ch = None \<and> on_terminate ch = None \<and> on_kill ch = Some rc \<longrightarrow>
           final (stream popen self args raw c)
             = \<lparr>state = Exited rc, sent = [Terminate, Kill], stdout_closed = True,
                stderr_closed = True\<rparr>)
      \<and> (self_exit ch = None \<and> on_terminate ch = None \<and> on_kill ch = None \<longrightarrow>
           state (final (stream popen self args raw c)) = Running
           \<and> \<not> stdout_closed (final (stream popen self args raw c))
           \<and> \<not> stderr_closed (final (stream popen self args raw c))
           \<and> raised (stream popen self args raw c) = Some TimeoutExpired))"
  using stream_not_spawned [of c popen self args raw name]
    stream_spawned [of c popen self args raw ch]
    stream_child_had_exited [of c popen self args raw ch rc]
    stream_child_exits_on_terminate [of c popen self args raw ch rc]
    stream_child_exits_on_kill [of c popen self args raw ch rc]
    stream_child_survives_kill [of c popen self args raw ch]
  by blast

theorem stream_teardown_follows_child_witness:
  "final (stream (\<lambda>cmd. Inr \<lparr>stdout_lines = [''booting\<newline>'', ''installing\<newline>'',
               ''=== Provisioning Complete ===\<newline>'', ''cleanup\<newline>''], stderr_text = [],
               self_exit = None, on_terminate = None, on_kill = Some (- 9)\<rparr>)
            \<lparr>binary = ''vastai'', api_key = None\<rparr> [''logs'', ''7'', ''--follow''] False (CloseAfter 3))
     = \<lparr>state = Exited (- 9), sent = [Terminate, Kill], stdout_closed = True, stderr_closed = True\<rparr>
   \<and> final (stream (\<lambda>cmd. Inr \<lparr>stdout_lines = [''booting\<newline>''], stderr_text = [],
               self_exit = None, on_terminate = Some (- 15), on_kill = Some (- 9)\<rparr>)
            \<lparr>binary = ''vastai'', api_key = None\<rparr> [''logs'', ''7'', ''--follow''] False (InterruptAfter 1))
     = \<lparr>state = Exited (- 15), sent = [Terminate], stdout_closed = True, stderr_closed = True\<rparr>
   \<and> final (stream (\<lambda>cmd. Inr \<lparr>stdout_lines = [''done\<newline>''], stderr_text = [],
               self_exit = Some 0, on_terminate = Some (- 15), on_kill = Some (- 9)\<rparr>)
            \<lparr>binary = ''vastai'', api_key = None\<rparr> [''logs'', ''7''] False ConsumeAll)
     = \<lparr>state = Exited 0, sent = [], stdout_closed = True, stderr_closed = True\<rparr>
   \<and> spawned (stream (\<lambda>cmd. Inl ''PermissionError'')
            \<lparr>binary = ''vastai'', api_key = None\<rparr> [''logs'', ''7''] False ConsumeAll) = 0"
proof -
  let ?self = "\<lparr>binary = ''vastai'', api_key = None\<rparr>"
  let ?c1 = "\<lparr>stdout_lines = [''booting\<newline>'', ''installing\<newline>'',
               ''=== Provisioning Complete ===\<newline>'', ''cleanup\<newline>''], stderr_text = [],
               self_exit = None, on_terminate = None, on_kill = Some (- 9)\<rparr>"
  let ?c2 = "\<lparr>stdout_lines = [''booting\<newline>''], stderr_text = [],
               self_exit = None, on_terminate = Some (- 15), on_kill = Some (- 9)\<rparr>"
  let ?c3 = "\<lparr>stdout_lines = [''done\<newline>''], stderr_text = [],
               self_exit = Some 0, on_terminate = Some (- 15), on_kill = Some (- 9)\<rparr>"
  show ?thesis
    using stream_teardown_follows_child
            [of "CloseAfter 3" "\<lambda>cmd. Inr ?c1" ?self "[''logs'', ''7'', ''--follow'']" False _ ?c1 "- 9"]
          stream_teardown_follows_child
            [of "InterruptAfter 1" "\<lambda>cmd. Inr ?c2" ?self "[''logs'', ''7'', ''--follow'']" False _ ?c2
                "- 15"]
          stream_teardown_follows_child
            [of ConsumeAll "\<lambda>cmd. Inr ?c3" ?self "[''logs'', ''7'']" False _ ?c3 0]
          stream_teardown_follows_child
            [of ConsumeAll "\<lambda>cmd. Inl ''PermissionError''" ?self "[''logs'', ''7'']" False
                "''PermissionError''"]
    by simp
qed

text \<open>
  The claim as stated fails for a child that does not exit within the wait that follows
  \<open>kill()\<close>, as one blocked in the kernel: the second \<open>wait(timeout=5)\<close> raises
  \<open>TimeoutExpired\<close>, which nothing catches, and \<open>stream\<close> ends with the child running
  and its pipes open.
\<close>

theorem stream_child_left_running_counterexample:
  "state (final (stream (\<lambda>cmd. Inr \<lparr>stdout_lines = [''booting\<newline>'', ''installing\<newline>''],
               stderr_text = [], self_exit = None, on_terminate = None, on_kill = None\<rparr>)
            \<lparr>binary = ''vastai'', api_key = None\<rparr> [''logs'', ''7'', ''--follow''] False (CloseAfter 1)))
     = Running
   \<and> raised (stream (\<lambda>cmd. Inr \<lparr>stdout_lines = [''booting\<newline>'', ''installing\<newline>''],
               stderr_text = [], self_exit = None, on_terminate = None, on_kill = None\<rparr>)
            \<lparr>binary = ''vastai'', api_key = None\<rparr> [''logs'', ''7'', ''--follow''] False (CloseAfter 1))
     = Some TimeoutExpired"
  by code_simp

end
